theory Spec2Isabelle
  imports Complex_Main "HOL-Library.Sublist"
begin

section \<open>Values and exceptions\<close>

text \<open>
  The values \<open>tomllib.load\<close> can put into the parsed document: strings, integers, floats,
  booleans, dates and times, arrays and tables. A float is a finite number, an infinity
  (with its sign) or not-a-number; dates and times are kept as their text.
\<close>

datatype py_float = Finite rat | Infinity bool | NaN

datatype toml_value =
    TStr string
  | TInt int
  | TFloat py_float
  | TBool bool
  | TDatetime string
  | TArray "toml_value list"
  | TTable "(string \<times> toml_value) list"

text \<open>
  Python's truth value, as \<open>not config[field]\<close> tests it: the empty string, zero, \<open>False\<close>
  and the empty collections are falsy; dates and times are always truthy, and so are the
  infinities and not-a-number.
\<close>

fun truthy :: "toml_value \<Rightarrow> bool" where
  "truthy (TStr s) = (s \<noteq> [])"
| "truthy (TInt i) = (i \<noteq> 0)"
| "truthy (TFloat (Finite q)) = (q \<noteq> 0)"
| "truthy (TFloat (Infinity _)) = True"
| "truthy (TFloat NaN) = True"
| "truthy (TBool b) = b"
| "truthy (TDatetime _) = True"
| "truthy (TArray xs) = (xs \<noteq> [])"
| "truthy (TTable kvs) = (kvs \<noteq> [])"

text \<open>
  The exceptions of the program, all of them instances of Python's \<open>Exception\<close>:
  \<open>FileNotFoundError\<close> and \<open>ValueError\<close> with their message, \<open>KeyError\<close> with the key,
  aiohttp's \<open>ClientResponseError\<close> with the status and the reason of the response that
  \<open>raise_for_status\<close> rejected, its \<open>TooManyRedirects\<close> (a \<open>ClientResponseError\<close> with status
  0 and an empty message), and \<open>OtherException\<close> for every other exception a library call
  raises (a connection error, a TOML decoding error, ...), with its text.
\<close>

datatype error =
    FileNotFoundError string
  | ValueError string
  | KeyError string
  | ClientResponseError nat string
  | TooManyRedirects
  | OtherException string

section \<open>Configuration (src/config.py)\<close>

record Config =
  username :: toml_value
  password :: toml_value
  base_url :: toml_value
  med_id :: toml_value
  office :: toml_value

text \<open>The parsed document is a dictionary from keys to values.\<close>

type_synonym toml_doc = "string \<rightharpoonup> toml_value"

text \<open>
  What the file system and \<open>tomllib.load\<close> answer for a path: \<open>None\<close> when the path does
  not exist, \<open>Some (Inl e)\<close> when opening or parsing the file raises \<open>e\<close>, and
  \<open>Some (Inr doc)\<close> when the file parses to \<open>doc\<close>.
\<close>

type_synonym file_system = "string \<Rightarrow> (error + toml_doc) option"

definition required_fields :: "string list" where
  "required_fields = [''username'', ''password'', ''base_url'', ''med_id'', ''office'']"

text \<open>\<open>sep.join(xs)\<close>\<close>

fun join :: "string \<Rightarrow> string list \<Rightarrow> string" where
  "join sep [] = []"
| "join sep [x] = x"
| "join sep (x # y # ys) = x @ sep @ join sep (y # ys)"

text \<open>\<open>field not in config or not config[field]\<close>\<close>

definition missing_or_empty :: "toml_doc \<Rightarrow> string \<Rightarrow> bool" where
  "missing_or_empty config field =
     (case config field of None \<Rightarrow> True | Some v \<Rightarrow> \<not> truthy v)"

definition missing_or_empty_fields :: "toml_doc \<Rightarrow> string list" where
  "missing_or_empty_fields config = filter (missing_or_empty config) required_fields"

text \<open>\<open>config[key]\<close>, which raises \<open>KeyError\<close> on an absent key.\<close>

definition subscript :: "toml_doc \<Rightarrow> string \<Rightarrow> error + toml_value" where
  "subscript config key = (case config key of None \<Rightarrow> Inl (KeyError key) | Some v \<Rightarrow> Inr v)"

text \<open>
  The construction \<open>cls(username=config["username"], ...)\<close> of the \<open>try\<close> block: the
  subscripts are evaluated in the order written, and the first that raises ends it.
\<close>

definition build_config :: "toml_doc \<Rightarrow> error + Config" where
  "build_config config =
     (case subscript config ''username'' of Inl e \<Rightarrow> Inl e | Inr u \<Rightarrow>
      case subscript config ''password'' of Inl e \<Rightarrow> Inl e | Inr p \<Rightarrow>
      case subscript config ''base_url'' of Inl e \<Rightarrow> Inl e | Inr b \<Rightarrow>
      case subscript config ''med_id'' of Inl e \<Rightarrow> Inl e | Inr m \<Rightarrow>
      case subscript config ''office'' of Inl e \<Rightarrow> Inl e | Inr off \<Rightarrow>
        Inr \<lparr>username = u, password = p, base_url = b, med_id = m, office = off\<rparr>)"

text \<open>
  \<open>str(e)\<close> for the two exceptions the \<open>except (KeyError, ValueError)\<close> clause catches: a
  \<open>KeyError\<close> prints its key between single quotes, a \<open>ValueError\<close> its message.
\<close>

definition parse_error_text :: "error \<Rightarrow> string" where
  "parse_error_text e =
     (case e of KeyError k \<Rightarrow> [CHR 0x27] @ k @ [CHR 0x27] | ValueError m \<Rightarrow> m | _ \<Rightarrow> [])"

definition from_toml :: "file_system \<Rightarrow> string \<Rightarrow> error + Config" where
  "from_toml fs path =
     (case fs path of
        None \<Rightarrow> Inl (FileNotFoundError (''Config file not found at '' @ path))
      | Some (Inl e) \<Rightarrow> Inl e
      | Some (Inr config) \<Rightarrow>
          if missing_or_empty_fields config \<noteq> [] then
            Inl (ValueError (''Missing or empty required fields in config file: ''
                             @ join '', '' (missing_or_empty_fields config)))
          else
            (case build_config config of
               Inl (KeyError k) \<Rightarrow>
                 Inl (ValueError (''Error parsing config file: '' @ parse_error_text (KeyError k)))
             | Inl (ValueError m) \<Rightarrow>
                 Inl (ValueError (''Error parsing config file: '' @ parse_error_text (ValueError m)))
             | Inl e \<Rightarrow> Inl e
             | Inr c \<Rightarrow> Inr c))"

section \<open>Session client (src/refiller_client.py)\<close>

text \<open>
  A request as \<open>self.client.post\<close> receives it: the method, the URL, the form fields, the
  headers and whether redirects are followed (aiohttp's default is to follow them). The
  response has the status, the reason phrase and the headers, read with \<open>headers.get\<close>.
\<close>

datatype http_method = GET | POST

record request =
  http_method :: http_method
  url :: string
  data :: "(string \<times> toml_value) list"
  req_headers :: "(string \<times> string) list"
  allow_redirects :: bool

record response =
  status :: nat
  reason :: string
  headers :: "string \<rightharpoonup> string"

text \<open>
  Everything outside the program, taken as given: the file system with the TOML parser;
  the outcome of one exchange with the server (an exception of the connection, or the
  server's answer to that request), as a function of the request, so that a server whose
  answer to one and the same request changes during a run is not covered; the URL a
  redirect leads to, from the current URL and the \<open>Location\<close> value (the parsing and joining
  of URLs, which raises on a malformed or non-HTTP target); and the two renderings that
  are library code: Python's formatting of a value that is not a string, and aiohttp's
  text of a \<open>ClientResponseError\<close> (built from status and message).
\<close>

record world =
  files :: file_system
  send :: "request \<Rightarrow> error + response"
  redirect_url :: "string \<Rightarrow> string \<Rightarrow> error + string"
  value_text :: "toml_value \<Rightarrow> string"
  http_error_text :: "nat \<Rightarrow> string \<Rightarrow> string"

text \<open>A value inside an f-string: a string stands for itself.\<close>

definition fstring :: "world \<Rightarrow> toml_value \<Rightarrow> string" where
  "fstring w v = (case v of TStr s \<Rightarrow> s | _ \<Rightarrow> value_text w v)"

text \<open>\<open>str(e)\<close>, as an f-string renders an exception.\<close>

definition exception_text :: "world \<Rightarrow> error \<Rightarrow> string" where
  "exception_text w e =
     (case e of
        FileNotFoundError m \<Rightarrow> m
      | ValueError m \<Rightarrow> m
      | KeyError k \<Rightarrow> [CHR 0x27] @ k @ [CHR 0x27]
      | ClientResponseError st msg \<Rightarrow> http_error_text w st msg
      | TooManyRedirects \<Rightarrow> http_error_text w 0 []
      | OtherException m \<Rightarrow> m)"

text \<open>
  aiohttp's \<open>ClientResponse.raise_for_status\<close>: it raises \<open>ClientResponseError\<close>, with the
  status and with the reason as message, unless \<open>ok\<close> holds, and \<open>ok\<close> is \<open>400 > status\<close>.
\<close>

definition raise_for_status :: "response \<Rightarrow> error + unit" where
  "raise_for_status r =
     (if \<not> (400 > status r) then Inl (ClientResponseError (status r) (reason r)) else Inr ())"

text \<open>
  aiohttp's \<open>ClientSession.post\<close>, which is its request loop: each answer with status 301,
  302, 303, 307 or 308 is a redirect when \<open>allow_redirects\<close> holds. The tenth redirect of a
  call raises \<open>TooManyRedirects\<close> (\<open>max_redirects\<close> is 10). Before that, a redirect without a
  target, which is the \<open>Location\<close> header or, when that is absent or empty, the \<open>URI\<close> header,
  is handed back as it is; one with a target is followed: the next request goes to the
  target, as a \<open>GET\<close> without form fields after a 303, and after a 301 or 302 that answered
  a \<open>POST\<close>, with method and form fields unchanged otherwise. Every other answer is handed
  back. The headers the caller passed are kept (aiohttp drops a \<open>Content-Length\<close> and, across
  origins, an \<open>Authorization\<close> among them; this program passes neither).
\<close>

definition redirect_statuses :: "nat set" where
  "redirect_statuses = {301, 302, 303, 307, 308}"

definition max_redirects :: nat where
  "max_redirects = 10"

definition redirect_target :: "response \<Rightarrow> string option" where
  "redirect_target r =
     (case headers r ''Location'' of
        None \<Rightarrow> headers r ''URI''
      | Some loc \<Rightarrow> if loc = [] then headers r ''URI'' else Some loc)"

definition next_request :: "response \<Rightarrow> request \<Rightarrow> string \<Rightarrow> request" where
  "next_request r req target =
     (if status r = 303 \<or> (status r \<in> {301, 302} \<and> http_method req = POST)
      then req\<lparr>http_method := GET, url := target, data := []\<rparr>
      else req\<lparr>url := target\<rparr>)"

text \<open>\<open>follow_redirects w n req\<close>: the loop when \<open>n\<close> more redirects may be followed.\<close>

fun follow_redirects :: "world \<Rightarrow> nat \<Rightarrow> request \<Rightarrow> error + response" where
  "follow_redirects w 0 req =
     (case send w req of
        Inl e \<Rightarrow> Inl e
      | Inr r \<Rightarrow>
          if status r \<in> redirect_statuses \<and> allow_redirects req then Inl TooManyRedirects
          else Inr r)"
| "follow_redirects w (Suc n) req =
     (case send w req of
        Inl e \<Rightarrow> Inl e
      | Inr r \<Rightarrow>
          if status r \<in> redirect_statuses \<and> allow_redirects req then
            (case redirect_target r of
               None \<Rightarrow> Inr r
             | Some r_url \<Rightarrow>
                 (case redirect_url w (url req) r_url of
                    Inl e \<Rightarrow> Inl e
                  | Inr target \<Rightarrow> follow_redirects w n (next_request r req target)))
          else Inr r)"

definition post :: "world \<Rightarrow> request \<Rightarrow> error + response" where
  "post w req = follow_redirects w (max_redirects - 1) req"

record RefillerClient =
  base_url :: toml_value

definition login_request ::
  "world \<Rightarrow> RefillerClient \<Rightarrow> toml_value \<Rightarrow> toml_value \<Rightarrow> toml_value \<Rightarrow> request" where
  "login_request w self usr pwd off =
     \<lparr>http_method = POST,
      url = fstring w (base_url self) @ ''/login'',
      data = [(''office'', off), (''username'', usr), (''password'', pwd)],
      req_headers = [(''Content-Type'', ''application/x-www-form-urlencoded'')],
      allow_redirects = False\<rparr>"

definition login ::
  "world \<Rightarrow> RefillerClient \<Rightarrow> toml_value \<Rightarrow> toml_value \<Rightarrow> toml_value \<Rightarrow> error + string" where
  "login w self usr pwd off =
     (case post w (login_request w self usr pwd off) of
        Inl e \<Rightarrow> Inl e
      | Inr response \<Rightarrow>
          (case raise_for_status response of
             Inl e \<Rightarrow> Inl e
           | Inr _ \<Rightarrow>
               (case headers response ''Set-Cookie'' of
                  None \<Rightarrow> Inl (ValueError ''Login failed: No session cookie received'')
                | Some cookie \<Rightarrow>
                    if cookie = [] then Inl (ValueError ''Login failed: No session cookie received'')
                    else Inr cookie)))"

definition refill_request :: "world \<Rightarrow> RefillerClient \<Rightarrow> string \<Rightarrow> toml_value \<Rightarrow> request" where
  "refill_request w self cookie med =
     \<lparr>http_method = POST,
      url = fstring w (base_url self) @ ''/msgs/newmsg'',
      data = [(''meds'', med), (''subject'', TStr ''R''), (''reply'', TStr []),
              (''type'', TStr ''R''), (''msg'', TStr [])],
      req_headers = [(''Content-Type'', ''application/x-www-form-urlencoded''),
                     (''Cookie'', cookie)],
      allow_redirects = True\<rparr>"

definition request_refill ::
  "world \<Rightarrow> RefillerClient \<Rightarrow> string \<Rightarrow> toml_value \<Rightarrow> error + bool" where
  "request_refill w self cookie med =
     (case post w (refill_request w self cookie med) of
        Inl e \<Rightarrow> Inl e
      | Inr response \<Rightarrow>
          (case raise_for_status response of
             Inl e \<Rightarrow> Inl e
           | Inr _ \<Rightarrow> Inr (status response = 200)))"

section \<open>Orchestrator (main.py)\<close>

text \<open>
  What a run does that can be observed, in order: the log records, the construction of
  the client, the calls of its three methods with their arguments.
\<close>

datatype level = INFO | ERROR

datatype event =
    Log level string
  | New_client toml_value
  | Call_login toml_value toml_value toml_value
  | Call_request_refill string toml_value
  | Call_close

text \<open>The pictographs of the log messages, as their UTF-8 bytes.\<close>

definition pill :: string where
  "pill = [CHR 0xF0, CHR 0x9F, CHR 0x92, CHR 0x8A]"

definition padlock :: string where
  "padlock = [CHR 0xF0, CHR 0x9F, CHR 0x94, CHR 0x90]"

definition cookie_sign :: string where
  "cookie_sign = [CHR 0xF0, CHR 0x9F, CHR 0x8D, CHR 0xAA]"

definition check_mark :: string where
  "check_mark = [CHR 0xE2, CHR 0x9C, CHR 0x85]"

definition cross_mark :: string where
  "cross_mark = [CHR 0xE2, CHR 0x9D, CHR 0x8C]"

text \<open>
  The body of the \<open>try\<close> block: its outcome (the exception that left it, or its normal
  end) and the events up to there.
\<close>

definition main_try :: "world \<Rightarrow> Config \<Rightarrow> RefillerClient \<Rightarrow> (error + unit) \<times> event list" where
  "main_try w config client =
     (let t1 = [Log INFO (padlock @ '' Logging in to retrieve session cookie...''),
                Call_login (username config) (password config) (office config)]
      in case login w client (username config) (password config) (office config) of
           Inl e \<Rightarrow> (Inl e, t1)
         | Inr cookie \<Rightarrow>
             (let t2 = t1 @ [Log INFO (cookie_sign @ '' Login successful, requesting medication refill...''),
                             Call_request_refill cookie (med_id config)]
              in case request_refill w client cookie (med_id config) of
                   Inl e \<Rightarrow> (Inl e, t2)
                 | Inr success \<Rightarrow>
                     (Inr (),
                      t2 @ [if success
                            then Log INFO (check_mark @ '' Medication refill request successful!'')
                            else Log ERROR (cross_mark @ '' Medication refill request failed...'')])))"

text \<open>
  \<open>main\<close>: an exception of the configuration leaves it before the \<open>try\<close>; inside, the
  \<open>except Exception\<close> clause logs and returns, and the \<open>finally\<close> clause closes the client
  on every way out. The result is \<open>Inl e\<close> when \<open>e\<close> leaves \<open>main\<close>, \<open>Inr ()\<close> when it returns.
\<close>

definition main :: "world \<Rightarrow> string \<Rightarrow> (error + unit) \<times> event list" where
  "main w path =
     (let t0 = [Log INFO (pill @ '' Starting refiller service...'')]
      in case from_toml (files w) path of
           Inl e \<Rightarrow> (Inl e, t0)
         | Inr config \<Rightarrow>
             (let client = \<lparr>base_url = Config.base_url config\<rparr>;
                  (r, t) = main_try w config client;
                  (r', t') = (case r of
                                Inl e \<Rightarrow> (Inr (), t @ [Log ERROR (''Login failed: '' @ exception_text w e)])
                              | Inr u \<Rightarrow> (Inr u, t))
              in (r', t0 @ [New_client (Config.base_url config)] @ t' @ [Call_close])))"

section \<open>Sample inputs\<close>

text \<open>
  Concrete inputs on which the properties below are evaluated: the configuration of the
  end-to-end scenario, and a file system holding one document at \<open>config.toml\<close>.
\<close>

definition sample_doc :: toml_doc where
  "sample_doc = [''username'' \<mapsto> TStr ''u'', ''password'' \<mapsto> TStr ''p'',
                 ''base_url'' \<mapsto> TStr ''http://x'', ''med_id'' \<mapsto> TStr ''aspirin'',
                 ''office'' \<mapsto> TStr ''o1'']"

definition sample_files :: "toml_doc \<Rightarrow> file_system" where
  "sample_files doc p = (if p = ''config.toml'' then Some (Inr doc) else None)"

text \<open>
  A response with a given status, reason and \<open>Set-Cookie\<close> header, and no other header; a
  server that answers the login URL of the client at \<open>http://x\<close> with one outcome and every
  other request with another; the world made of these, in which a redirect leads to the
  URL its \<open>Location\<close> gives.
\<close>

definition reply :: "nat \<Rightarrow> string \<Rightarrow> string option \<Rightarrow> response" where
  "reply st rs ck = \<lparr>status = st, reason = rs, headers = (\<lambda>k. if k = ''Set-Cookie'' then ck else None)\<rparr>"

definition sample_server :: "error + response \<Rightarrow> error + response \<Rightarrow> request \<Rightarrow> error + response" where
  "sample_server on_login on_refill req = (if url req = ''http://x/login'' then on_login else on_refill)"

definition sample_world :: "toml_doc \<Rightarrow> error + response \<Rightarrow> error + response \<Rightarrow> world" where
  "sample_world doc on_login on_refill =
     \<lparr>files = sample_files doc, send = sample_server on_login on_refill,
      redirect_url = (\<lambda>current target. Inr target),
      value_text = (\<lambda>v. ''?''), http_error_text = (\<lambda>st msg. msg)\<rparr>"

definition sample_client :: RefillerClient where
  "sample_client = \<lparr>base_url = TStr ''http://x''\<rparr>"




text \<open>A document whose required fields are truthy and none of them a string.\<close>

definition mixed_doc :: toml_doc where
  "mixed_doc = [''username'' \<mapsto> TInt 5, ''password'' \<mapsto> TBool True,
                ''base_url'' \<mapsto> TArray [TStr ''http://x''],
                ''med_id'' \<mapsto> TTable [(''id'', TInt 7)], ''office'' \<mapsto> TFloat (Finite (1/2))]"

section \<open>Properties of configuration loading\<close>

lemma join_names_each: "x \<in> set xs \<Longrightarrow> sublist x (join sep xs)"
proof (induction sep xs rule: join.induct)
  case (1 sep)
  then show ?case by simp
next
  case (2 sep x')
  then show ?case by simp
next
  case (3 sep a b bs)
  show ?case
  proof (cases "x = a")
    case True
    then show ?thesis by simp
  next
    case False
    with 3 have "sublist x (join sep (b # bs))" by simp
    then obtain ps ss where "join sep (b # bs) = ps @ x @ ss"
      by (auto simp: sublist_def)
    then have "join sep (a # b # bs) = (a @ sep @ ps) @ x @ ss" by simp
    then show ?thesis unfolding sublist_def by blast
  qed
qed

lemma missing_in_required: "set (missing_or_empty_fields config) \<subseteq> set required_fields"
  by (simp add: missing_or_empty_fields_def)

lemma build_config_ok:
  assumes "missing_or_empty_fields config = []"
  shows "\<exists>u p b m off. config ''username'' = Some u \<and> config ''password'' = Some p \<and>
           config ''base_url'' = Some b \<and> config ''med_id'' = Some m \<and> config ''office'' = Some off \<and>
           build_config config =
             Inr \<lparr>username = u, password = p, base_url = b, med_id = m, office = off\<rparr>"
proof -
  from assms have a: "\<forall>f \<in> set required_fields. \<not> missing_or_empty config f"
    by (simp add: missing_or_empty_fields_def filter_empty_conv)
  then have "config ''username'' \<noteq> None" "config ''password'' \<noteq> None" "config ''base_url'' \<noteq> None"
    "config ''med_id'' \<noteq> None" "config ''office'' \<noteq> None"
    by (auto simp: required_fields_def missing_or_empty_def split: option.splits)
  then show ?thesis
    by (auto simp: build_config_def subscript_def)
qed

lemma from_toml_valid:
  assumes "fs path = Some (Inr config)" "missing_or_empty_fields config = []"
  shows "\<exists>u p b m off. config ''username'' = Some u \<and> config ''password'' = Some p \<and>
           config ''base_url'' = Some b \<and> config ''med_id'' = Some m \<and> config ''office'' = Some off \<and>
           from_toml fs path =
             Inr \<lparr>username = u, password = p, base_url = b, med_id = m, office = off\<rparr>"
  using build_config_ok[of config, OF assms(2)] assms by (auto simp: from_toml_def)

lemma from_toml_invalid:
  assumes "fs path = Some (Inr config)" "missing_or_empty_fields config \<noteq> []"
  shows "from_toml fs path =
           Inl (ValueError (''Missing or empty required fields in config file: ''
                            @ join '', '' (missing_or_empty_fields config)))"
  using assms by (simp add: from_toml_def)

lemma named_in_message:
  assumes "f \<in> set required_fields" "missing_or_empty config f"
  shows "sublist f (''Missing or empty required fields in config file: ''
                            @ join '', '' (missing_or_empty_fields config))"
proof -
  from assms have "f \<in> set (missing_or_empty_fields config)"
    by (simp add: missing_or_empty_fields_def)
  then have "sublist f (join '', '' (missing_or_empty_fields config))"
    by (rule join_names_each)
  then obtain ps ss where "join '', '' (missing_or_empty_fields config) = ps @ f @ ss"
    by (auto simp: sublist_def)
  then have "''Missing or empty required fields in config file: ''
               @ join '', '' (missing_or_empty_fields config)
             = (''Missing or empty required fields in config file: '' @ ps) @ f @ ss"
    by simp
  then show ?thesis unfolding sublist_def by blast
qed

text \<open>
  C7. When the file parses to a document, and one or more of the five required fields is
  absent or falsy there, loading raises a \<open>ValueError\<close> whose message is the fixed prefix
  followed by the offending fields joined with commas, so that each offending field, not
  only the first, occurs in the message. When all five are present and truthy, loading
  returns a \<open>Config\<close> whose five fields are the document's values, unchanged.
\<close>

theorem from_toml_names_every_field:
  assumes "fs path = Some (Inr config)"
  shows "((\<exists>f \<in> set required_fields. missing_or_empty config f) \<longrightarrow>
            (\<exists>msg. from_toml fs path = Inl (ValueError msg) \<and>
               msg = ''Missing or empty required fields in config file: ''
                       @ join '', '' (missing_or_empty_fields config) \<and>
               (\<forall>f \<in> set required_fields. missing_or_empty config f \<longrightarrow> sublist f msg)))
       \<and> ((\<forall>f \<in> set required_fields. \<not> missing_or_empty config f) \<longrightarrow>
            (\<exists>c. from_toml fs path = Inr c \<and>
               config ''username'' = Some (username c) \<and> config ''password'' = Some (password c) \<and>
               config ''base_url'' = Some (Config.base_url c) \<and> config ''med_id'' = Some (med_id c) \<and>
               config ''office'' = Some (office c)))"
proof (intro conjI impI)
  assume "\<exists>f \<in> set required_fields. missing_or_empty config f"
  then have "missing_or_empty_fields config \<noteq> []"
    by (auto simp: missing_or_empty_fields_def filter_empty_conv)
  from from_toml_invalid[of fs path config, OF assms this] named_in_message[of _ config]
  show "\<exists>msg. from_toml fs path = Inl (ValueError msg) \<and>
               msg = ''Missing or empty required fields in config file: ''
                       @ join '', '' (missing_or_empty_fields config) \<and>
               (\<forall>f \<in> set required_fields. missing_or_empty config f \<longrightarrow> sublist f msg)"
    by blast
next
  assume "\<forall>f \<in> set required_fields. \<not> missing_or_empty config f"
  then have "missing_or_empty_fields config = []"
    by (auto simp: missing_or_empty_fields_def filter_empty_conv)
  from from_toml_valid[of fs path config, OF assms this]
  show "\<exists>c. from_toml fs path = Inr c \<and>
               config ''username'' = Some (username c) \<and> config ''password'' = Some (password c) \<and>
               config ''base_url'' = Some (Config.base_url c) \<and> config ''med_id'' = Some (med_id c) \<and>
               config ''office'' = Some (office c)"
    by auto
qed

theorem from_toml_names_every_field_witness:
  "from_toml (sample_files (sample_doc(''password'' \<mapsto> TStr [], ''med_id'' := None))) ''config.toml''
     = Inl (ValueError ''Missing or empty required fields in config file: password, med_id'')
   \<and> sublist ''password'' ''Missing or empty required fields in config file: password, med_id''
   \<and> sublist ''med_id'' ''Missing or empty required fields in config file: password, med_id''
   \<and> from_toml (sample_files sample_doc) ''config.toml''
     = Inr \<lparr>username = TStr ''u'', password = TStr ''p'', Config.base_url = TStr ''http://x'',
            med_id = TStr ''aspirin'', office = TStr ''o1''\<rparr>"
proof -
  let ?bad = "sample_doc(''password'' \<mapsto> TStr [], ''med_id'' := None)"
  have f1: "sample_files ?bad ''config.toml'' = Some (Inr ?bad)"
    by (simp add: sample_files_def)
  have f2: "sample_files sample_doc ''config.toml'' = Some (Inr sample_doc)"
    by (simp add: sample_files_def)
  have m: "missing_or_empty_fields ?bad = [''password'', ''med_id'']"
    by (simp add: required_fields_def missing_or_empty_fields_def missing_or_empty_def sample_doc_def)
  have b1: "missing_or_empty ?bad ''password''" "missing_or_empty ?bad ''med_id''"
    by (simp_all add: missing_or_empty_def sample_doc_def)
  have r: "''password'' \<in> set required_fields" "''med_id'' \<in> set required_fields"
    by (simp_all add: required_fields_def)
  have ok: "\<forall>f \<in> set required_fields. \<not> missing_or_empty sample_doc f"
    by (simp add: required_fields_def missing_or_empty_def sample_doc_def)
  from from_toml_names_every_field[of "sample_files ?bad" "''config.toml''" ?bad, OF f1] b1 r m
  have p1: "from_toml (sample_files ?bad) ''config.toml''
     = Inl (ValueError ''Missing or empty required fields in config file: password, med_id'')
   \<and> sublist ''password'' ''Missing or empty required fields in config file: password, med_id''
   \<and> sublist ''med_id'' ''Missing or empty required fields in config file: password, med_id''"
    by auto
  from from_toml_names_every_field[of "sample_files sample_doc" "''config.toml''" sample_doc, OF f2] ok
  obtain c where c: "from_toml (sample_files sample_doc) ''config.toml'' = Inr c"
    "sample_doc ''username'' = Some (username c)" "sample_doc ''password'' = Some (password c)"
    "sample_doc ''base_url'' = Some (Config.base_url c)" "sample_doc ''med_id'' = Some (med_id c)"
    "sample_doc ''office'' = Some (office c)"
    by blast
  from c(2-6) have "c = \<lparr>username = TStr ''u'', password = TStr ''p'', Config.base_url = TStr ''http://x'',
            med_id = TStr ''aspirin'', office = TStr ''o1''\<rparr>"
    by (simp add: sample_doc_def)
  with c(1) p1 show ?thesis by simp
qed


lemma missing_or_empty_drop_falsy:
  assumes "config f = Some v" "\<not> truthy v"
  shows "missing_or_empty (config(f := None)) = missing_or_empty config"
  using assms by (auto simp: missing_or_empty_def fun_eq_iff)

lemma subscript_drop_other: "k \<noteq> f \<Longrightarrow> subscript (config(f := None)) k = subscript config k"
  by (simp add: subscript_def)

lemma build_config_drop_other:
  assumes "f \<notin> set required_fields"
  shows "build_config (config(f := None)) = build_config config"
proof -
  from assms have ne: "''username'' \<noteq> f" "''password'' \<noteq> f" "''base_url'' \<noteq> f"
    "''med_id'' \<noteq> f" "''office'' \<noteq> f"
    by (auto simp: required_fields_def)
  show ?thesis
    unfolding build_config_def
      subscript_drop_other[OF ne(1)] subscript_drop_other[OF ne(2)] subscript_drop_other[OF ne(3)]
      subscript_drop_other[OF ne(4)] subscript_drop_other[OF ne(5)] ..
qed

lemma from_toml_drop_falsy:
  assumes "fs path = Some (Inr config)" "config f = Some v" "\<not> truthy v"
  shows "from_toml (fs(path \<mapsto> Inr (config(f := None)))) path = from_toml fs path"
proof -
  have same: "missing_or_empty_fields (config(f := None)) = missing_or_empty_fields config"
    by (simp add: missing_or_empty_fields_def missing_or_empty_drop_falsy[of config f v, OF assms(2,3)])
  show ?thesis
  proof (cases "missing_or_empty_fields config = []")
    case True
    then have "f \<notin> set required_fields"
      using assms(2,3) by (auto simp: missing_or_empty_fields_def filter_empty_conv missing_or_empty_def)
    then have "build_config (config(f := None)) = build_config config"
      by (rule build_config_drop_other)
    with same True assms(1) show ?thesis by (simp add: from_toml_def)
  next
    case False
    with same assms(1) show ?thesis by (simp add: from_toml_def)
  qed
qed

text \<open>
  C10. Loading validates no type. When every required field has a truthy value, of
  whatever type, the \<open>Config\<close> holds these values unchanged, so its fields need not be
  strings. A key whose value is falsy (the empty string, zero, \<open>False\<close>, an empty array or
  table) is treated as an absent key: loading answers the same with the key removed, and
  such a required field is listed in the error of missing or empty fields.
\<close>

theorem from_toml_no_type_validation:
  assumes "fs path = Some (Inr config)"
  shows "((\<forall>f \<in> set required_fields. \<exists>v. config f = Some v \<and> truthy v) \<longrightarrow>
            (\<exists>c. from_toml fs path = Inr c \<and>
               Some (username c) = config ''username'' \<and> Some (password c) = config ''password'' \<and>
               Some (Config.base_url c) = config ''base_url'' \<and> Some (med_id c) = config ''med_id'' \<and>
               Some (office c) = config ''office''))
       \<and> (\<forall>f v. config f = Some v \<and> \<not> truthy v \<longrightarrow>
            from_toml (fs(path \<mapsto> Inr (config(f := None)))) path = from_toml fs path \<and>
            (f \<in> set required_fields \<longrightarrow>
               f \<in> set (missing_or_empty_fields config) \<and>
               (\<exists>msg. from_toml fs path = Inl (ValueError msg) \<and> sublist f msg)))"
proof (intro conjI impI allI)
  assume "\<forall>f \<in> set required_fields. \<exists>v. config f = Some v \<and> truthy v"
  then have "missing_or_empty_fields config = []"
    by (auto simp: missing_or_empty_fields_def filter_empty_conv missing_or_empty_def)
  from from_toml_valid[of fs path config, OF assms this]
  show "\<exists>c. from_toml fs path = Inr c \<and>
               Some (username c) = config ''username'' \<and> Some (password c) = config ''password'' \<and>
               Some (Config.base_url c) = config ''base_url'' \<and> Some (med_id c) = config ''med_id'' \<and>
               Some (office c) = config ''office''"
    by auto
next
  fix f v
  assume "config f = Some v \<and> \<not> truthy v"
  then show "from_toml (fs(path \<mapsto> Inr (config(f := None)))) path = from_toml fs path"
    using from_toml_drop_falsy[of fs path config f v] assms by simp
next
  fix f v
  assume fv: "config f = Some v \<and> \<not> truthy v" and req: "f \<in> set required_fields"
  then have bad: "missing_or_empty config f" by (simp add: missing_or_empty_def)
  with req show "f \<in> set (missing_or_empty_fields config)"
    by (simp add: missing_or_empty_fields_def)
next
  fix f v
  assume fv: "config f = Some v \<and> \<not> truthy v" and req: "f \<in> set required_fields"
  then have bad: "missing_or_empty config f" by (simp add: missing_or_empty_def)
  with req have "missing_or_empty_fields config \<noteq> []"
    by (auto simp: missing_or_empty_fields_def filter_empty_conv)
  from from_toml_invalid[of fs path config, OF assms this] named_in_message[OF req bad]
  show "\<exists>msg. from_toml fs path = Inl (ValueError msg) \<and> sublist f msg" by simp
qed

theorem from_toml_no_type_validation_witness:
  "from_toml (sample_files mixed_doc) ''config.toml''
     = Inr \<lparr>username = TInt 5, password = TBool True, Config.base_url = TArray [TStr ''http://x''],
            med_id = TTable [(''id'', TInt 7)], office = TFloat (Finite (1/2))\<rparr>
   \<and> from_toml (sample_files (mixed_doc(''med_id'' \<mapsto> TInt 0))) ''config.toml''
     = from_toml (sample_files (mixed_doc(''med_id'' := None))) ''config.toml''
   \<and> from_toml (sample_files (mixed_doc(''med_id'' \<mapsto> TInt 0))) ''config.toml''
     = Inl (ValueError ''Missing or empty required fields in config file: med_id'')"
proof -
  let ?zero = "mixed_doc(''med_id'' \<mapsto> TInt 0)"
  have f1: "sample_files mixed_doc ''config.toml'' = Some (Inr mixed_doc)"
    and f2: "sample_files ?zero ''config.toml'' = Some (Inr ?zero)"
    by (simp_all add: sample_files_def)
  have ok: "\<forall>f \<in> set required_fields. \<exists>v. mixed_doc f = Some v \<and> truthy v"
    by (simp add: required_fields_def mixed_doc_def)
  from from_toml_no_type_validation[of "sample_files mixed_doc" "''config.toml''" mixed_doc, OF f1] ok
  obtain c where c: "from_toml (sample_files mixed_doc) ''config.toml'' = Inr c"
    "Some (username c) = mixed_doc ''username''" "Some (password c) = mixed_doc ''password''"
    "Some (Config.base_url c) = mixed_doc ''base_url''" "Some (med_id c) = mixed_doc ''med_id''"
    "Some (office c) = mixed_doc ''office''"
    by blast
  from c(2-6) have "c = \<lparr>username = TInt 5, password = TBool True, Config.base_url = TArray [TStr ''http://x''],
            med_id = TTable [(''id'', TInt 7)], office = TFloat (Finite (1/2))\<rparr>"
    by (simp add: mixed_doc_def)
  with c(1) have p1: "from_toml (sample_files mixed_doc) ''config.toml''
     = Inr \<lparr>username = TInt 5, password = TBool True, Config.base_url = TArray [TStr ''http://x''],
            med_id = TTable [(''id'', TInt 7)], office = TFloat (Finite (1/2))\<rparr>" by simp
  have z: "?zero ''med_id'' = Some (TInt 0) \<and> \<not> truthy (TInt 0)" by simp
  have r: "''med_id'' \<in> set required_fields" by (simp add: required_fields_def)
  have upd: "(sample_files ?zero)(''config.toml'' \<mapsto> Inr (?zero(''med_id'' := None)))
               = sample_files (mixed_doc(''med_id'' := None))"
    by (auto simp: sample_files_def fun_eq_iff)
  have m: "missing_or_empty_fields ?zero = [''med_id'']"
    by (simp add: required_fields_def missing_or_empty_fields_def missing_or_empty_def mixed_doc_def)
  from from_toml_no_type_validation[of "sample_files ?zero" "''config.toml''" ?zero, OF f2] z r
  have "from_toml ((sample_files ?zero)(''config.toml'' \<mapsto> Inr (?zero(''med_id'' := None)))) ''config.toml''
          = from_toml (sample_files ?zero) ''config.toml''"
    and "\<exists>msg. from_toml (sample_files ?zero) ''config.toml'' = Inl (ValueError msg)"
    by blast+
  moreover have "from_toml (sample_files ?zero) ''config.toml''
     = Inl (ValueError ''Missing or empty required fields in config file: med_id'')"
    using from_toml_invalid[of "sample_files ?zero" "''config.toml''" ?zero, OF f2] m by simp
  ultimately show ?thesis using p1 upd by simp
qed

section \<open>Properties of the session client\<close>

lemma post_not_following: "\<not> allow_redirects req \<Longrightarrow> post w req = send w req"
  by (cases "max_redirects - 1") (simp_all add: post_def split: sum.splits)


lemma post_unfold: "\<exists>n. post w req = follow_redirects w (Suc n) req"
  by (rule exI[of _ 8]) (simp add: post_def max_redirects_def)

lemma post_hands_back:
  assumes "send w req = Inr r"
    and "status r \<notin> redirect_statuses \<or> redirect_target r = None"
  shows "post w req = Inr r"
proof -
  obtain n where "post w req = follow_redirects w (Suc n) req"
    using post_unfold by blast
  then show ?thesis using assms by auto
qed


lemma reply_fields [simp]:
  "status (reply st rs ck) = st" "reason (reply st rs ck) = rs"
  "headers (reply st rs ck) ''Set-Cookie'' = ck" "redirect_target (reply st rs ck) = None"
  by (simp_all add: reply_def redirect_target_def)

lemma sample_send_login:
  "send (sample_world doc a b) (login_request (sample_world doc a b) sample_client u p off) = a"
  by (simp add: sample_world_def sample_server_def login_request_def sample_client_def fstring_def)

lemma sample_send_refill:
  "send (sample_world doc a b) (refill_request (sample_world doc a b) sample_client c m) = b"
  by (simp add: sample_world_def sample_server_def refill_request_def sample_client_def fstring_def)

lemma sample_post_login [simp]:
  "post (sample_world doc a b) (login_request (sample_world doc a b) sample_client u p off) = a"
  using post_not_following[of "login_request (sample_world doc a b) sample_client u p off"
          "sample_world doc a b"]
  by (simp add: sample_send_login) (simp add: login_request_def)

lemma sample_post_refill [simp]:
  "post (sample_world doc a (Inr (reply st rs ck)))
        (refill_request (sample_world doc a (Inr (reply st rs ck))) sample_client c m)
     = Inr (reply st rs ck)"
  by (rule post_hands_back) (simp_all add: sample_send_refill)




text \<open>
  C2, as stated, fails: the login request does not follow redirects, and a response with
  status 302, which is not a 2xx status, that carries a \<open>Set-Cookie\<close> header makes \<open>login\<close>
  return the cookie instead of raising.
\<close>

theorem login_redirect_counterexample:
  "post (sample_world sample_doc (Inr (reply 302 ''Found'' (Some ''s=1''))) (Inr (reply 200 ''OK'' None)))
        (login_request (sample_world sample_doc (Inr (reply 302 ''Found'' (Some ''s=1''))) (Inr (reply 200 ''OK'' None)))
           sample_client (TStr ''u'') (TStr ''p'') (TStr ''o1''))
     = Inr (reply 302 ''Found'' (Some ''s=1''))
   \<and> \<not> (200 \<le> status (reply 302 ''Found'' (Some ''s=1'')) \<and> status (reply 302 ''Found'' (Some ''s=1'')) < 300)
   \<and> login (sample_world sample_doc (Inr (reply 302 ''Found'' (Some ''s=1''))) (Inr (reply 200 ''OK'' None)))
        sample_client (TStr ''u'') (TStr ''p'') (TStr ''o1'') = Inr ''s=1''"
  by (simp add: login_def raise_for_status_def)

text \<open>
  C2, amended. For every response to the login POST whose status is 400 or more, \<open>login\<close>
  raises a \<open>ClientResponseError\<close> carrying the status and the reason, and so returns no
  credential; for a status below 400, the 3xx statuses included, it raises no
  \<open>ClientResponseError\<close>.
\<close>

theorem login_http_error:
  assumes "post w (login_request w self usr pwd off) = Inr r"
  shows "(400 \<le> status r \<longrightarrow>
            login w self usr pwd off = Inl (ClientResponseError (status r) (reason r)))
       \<and> (status r < 400 \<longrightarrow>
            (\<forall>st msg. login w self usr pwd off \<noteq> Inl (ClientResponseError st msg)))"
  using assms by (auto simp: login_def raise_for_status_def split: option.splits)

theorem login_http_error_witness:
  "login (sample_world sample_doc (Inr (reply 401 ''Unauthorized'' None)) (Inr (reply 200 ''OK'' None)))
        sample_client (TStr ''u'') (TStr ''p'') (TStr ''o1'') = Inl (ClientResponseError 401 ''Unauthorized'')
   \<and> login (sample_world sample_doc (Inr (reply 302 ''Found'' None)) (Inr (reply 200 ''OK'' None)))
        sample_client (TStr ''u'') (TStr ''p'') (TStr ''o1'') \<noteq> Inl (ClientResponseError 302 ''Found'')"
  using login_http_error[of "sample_world sample_doc (Inr (reply 401 ''Unauthorized'' None)) (Inr (reply 200 ''OK'' None))"
          sample_client "TStr ''u''" "TStr ''p''" "TStr ''o1''" "reply 401 ''Unauthorized'' None"]
        login_http_error[of "sample_world sample_doc (Inr (reply 302 ''Found'' None)) (Inr (reply 200 ''OK'' None))"
          sample_client "TStr ''u''" "TStr ''p''" "TStr ''o1''" "reply 302 ''Found'' None"]
  by simp

text \<open>
  C5. For every response to the login POST that \<open>raise_for_status\<close> accepts (a status below
  400, which includes every 2xx status) and whose \<open>Set-Cookie\<close> header is absent or the empty
  string, \<open>login\<close> returns no credential: it raises the error of a failed authentication,
  in the source a \<open>ValueError\<close> with the text \<open>Login failed: No session cookie received\<close>.
\<close>

theorem login_without_cookie:
  assumes "post w (login_request w self usr pwd off) = Inr r"
    and "status r < 400"
    and "headers r ''Set-Cookie'' = None \<or> headers r ''Set-Cookie'' = Some []"
  shows "login w self usr pwd off = Inl (ValueError ''Login failed: No session cookie received'')"
  using assms by (auto simp: login_def raise_for_status_def)

theorem login_without_cookie_witness:
  "login (sample_world sample_doc (Inr (reply 200 ''OK'' None)) (Inr (reply 200 ''OK'' None)))
        sample_client (TStr ''u'') (TStr ''p'') (TStr ''o1'')
     = Inl (ValueError ''Login failed: No session cookie received'')
   \<and> login (sample_world sample_doc (Inr (reply 200 ''OK'' (Some []))) (Inr (reply 200 ''OK'' None)))
        sample_client (TStr ''u'') (TStr ''p'') (TStr ''o1'')
     = Inl (ValueError ''Login failed: No session cookie received'')"
  using login_without_cookie[of "sample_world sample_doc (Inr (reply 200 ''OK'' None)) (Inr (reply 200 ''OK'' None))"
          sample_client "TStr ''u''" "TStr ''p''" "TStr ''o1''" "reply 200 ''OK'' None"]
        login_without_cookie[of "sample_world sample_doc (Inr (reply 200 ''OK'' (Some []))) (Inr (reply 200 ''OK'' None))"
          sample_client "TStr ''u''" "TStr ''p''" "TStr ''o1''" "reply 200 ''OK'' (Some [])"]
  by simp

text \<open>
  C6. For every response to the login POST with a 2xx status and a non-empty \<open>Set-Cookie\<close>
  header, \<open>login\<close> returns exactly the value of that header.
\<close>

theorem login_returns_cookie:
  assumes "post w (login_request w self usr pwd off) = Inr r"
    and "200 \<le> status r" and "status r < 300"
    and "headers r ''Set-Cookie'' = Some c" and "c \<noteq> []"
  shows "login w self usr pwd off = Inr c"
  using assms by (simp add: login_def raise_for_status_def)

theorem login_returns_cookie_witness:
  "login (sample_world sample_doc (Inr (reply 200 ''OK'' (Some ''session_id=abc123''))) (Inr (reply 200 ''OK'' None)))
        sample_client (TStr ''u'') (TStr ''p'') (TStr ''o1'') = Inr ''session_id=abc123''"
  using login_returns_cookie[of "sample_world sample_doc (Inr (reply 200 ''OK'' (Some ''session_id=abc123''))) (Inr (reply 200 ''OK'' None))"
          sample_client "TStr ''u''" "TStr ''p''" "TStr ''o1''" "reply 200 ''OK'' (Some ''session_id=abc123'')" "''session_id=abc123''"]
  by simp

section \<open>Properties of the orchestrator\<close>

lemma login_cookie_nonempty: "login w self usr pwd off = Inr c \<Longrightarrow> c \<noteq> []"
  by (auto simp: login_def split: sum.splits option.splits if_splits)

lemma main_config_error:
  assumes "from_toml (files w) path = Inl e"
  shows "main w path = (Inl e, [Log INFO (pill @ '' Starting refiller service...'')])"
  using assms by (simp add: main_def)

lemma main_login_error:
  assumes "from_toml (files w) path = Inr config"
    and "login w \<lparr>base_url = Config.base_url config\<rparr> (username config) (password config) (office config) = Inl e"
  shows "main w path =
           (Inr (),
            [Log INFO (pill @ '' Starting refiller service...''),
             New_client (Config.base_url config),
             Log INFO (padlock @ '' Logging in to retrieve session cookie...''),
             Call_login (username config) (password config) (office config),
             Log ERROR (''Login failed: '' @ exception_text w e),
             Call_close])"
  using assms by (simp add: main_def main_try_def)

lemma main_refill_error:
  assumes "from_toml (files w) path = Inr config"
    and "login w \<lparr>base_url = Config.base_url config\<rparr> (username config) (password config) (office config) = Inr c"
    and "request_refill w \<lparr>base_url = Config.base_url config\<rparr> c (med_id config) = Inl e"
  shows "main w path =
           (Inr (),
            [Log INFO (pill @ '' Starting refiller service...''),
             New_client (Config.base_url config),
             Log INFO (padlock @ '' Logging in to retrieve session cookie...''),
             Call_login (username config) (password config) (office config),
             Log INFO (cookie_sign @ '' Login successful, requesting medication refill...''),
             Call_request_refill c (med_id config),
             Log ERROR (''Login failed: '' @ exception_text w e),
             Call_close])"
  using assms by (simp add: main_def main_try_def)

lemma main_refill_done:
  assumes "from_toml (files w) path = Inr config"
    and "login w \<lparr>base_url = Config.base_url config\<rparr> (username config) (password config) (office config) = Inr c"
    and "request_refill w \<lparr>base_url = Config.base_url config\<rparr> c (med_id config) = Inr b"
  shows "main w path =
           (Inr (),
            [Log INFO (pill @ '' Starting refiller service...''),
             New_client (Config.base_url config),
             Log INFO (padlock @ '' Logging in to retrieve session cookie...''),
             Call_login (username config) (password config) (office config),
             Log INFO (cookie_sign @ '' Login successful, requesting medication refill...''),
             Call_request_refill c (med_id config),
             (if b then Log INFO (check_mark @ '' Medication refill request successful!'')
              else Log ERROR (cross_mark @ '' Medication refill request failed...'')),
             Call_close])"
  using assms by (simp add: main_def main_try_def)

lemma sample_from_toml:
  "from_toml (files (sample_world sample_doc a b)) ''config.toml''
     = Inr \<lparr>username = TStr ''u'', password = TStr ''p'', Config.base_url = TStr ''http://x'',
            med_id = TStr ''aspirin'', office = TStr ''o1''\<rparr>"
proof -
  have "missing_or_empty_fields sample_doc = []"
    by (simp add: required_fields_def missing_or_empty_fields_def missing_or_empty_def sample_doc_def)
  moreover have "build_config sample_doc
     = Inr \<lparr>username = TStr ''u'', password = TStr ''p'', Config.base_url = TStr ''http://x'',
            med_id = TStr ''aspirin'', office = TStr ''o1''\<rparr>"
    by (simp add: build_config_def subscript_def sample_doc_def)
  ultimately show ?thesis
    by (simp add: from_toml_def sample_world_def sample_files_def)
qed

lemma sample_client_eq: "\<lparr>base_url = TStr ''http://x''\<rparr> = sample_client"
  by (simp add: sample_client_def)

lemma sample_login_ok:
  "login (sample_world doc (Inr (reply 200 ''OK'' (Some ''s=1''))) b)
     sample_client u p off = Inr ''s=1''"
  by (simp add: login_def raise_for_status_def)

lemma sample_login_down:
  "login (sample_world doc (Inl (OtherException ''Cannot connect to host'')) b)
     sample_client u p off = Inl (OtherException ''Cannot connect to host'')"
  by (simp add: login_def)

lemma sample_refill_ok:
  "request_refill (sample_world doc a (Inr (reply 200 ''OK'' None))) sample_client c m = Inr True"
  by (simp add: request_refill_def raise_for_status_def)

lemma sample_refill_500:
  "request_refill (sample_world doc a (Inr (reply 500 ''Internal Server Error'' None))) sample_client c m
     = Inl (ClientResponseError 500 ''Internal Server Error'')"
  by (simp add: request_refill_def raise_for_status_def)

lemma sample_run_ok:
  "main (sample_world sample_doc (Inr (reply 200 ''OK'' (Some ''s=1''))) (Inr (reply 200 ''OK'' None)))
        ''config.toml''
     = (Inr (),
        [Log INFO (pill @ '' Starting refiller service...''),
         New_client (TStr ''http://x''),
         Log INFO (padlock @ '' Logging in to retrieve session cookie...''),
         Call_login (TStr ''u'') (TStr ''p'') (TStr ''o1''),
         Log INFO (cookie_sign @ '' Login successful, requesting medication refill...''),
         Call_request_refill ''s=1'' (TStr ''aspirin''),
         Log INFO (check_mark @ '' Medication refill request successful!''),
         Call_close])"
  using main_refill_done[OF sample_from_toml, of "Inr (reply 200 ''OK'' (Some ''s=1''))"
          "Inr (reply 200 ''OK'' None)" "''s=1''" True]
  by (simp add: sample_client_eq sample_login_ok sample_refill_ok)

text \<open>
  C3. In every run, whenever \<open>request_refill\<close> is called, the configuration was loaded,
  the \<open>login\<close> call of this run returned the very cookie that is passed to
  \<open>request_refill\<close>, that cookie is not empty, the call of \<open>login\<close> comes before it in the
  run, and there is no other call of \<open>request_refill\<close>. If \<open>login\<close> raises, whatever the
  exception, \<open>request_refill\<close> is not called in that run.
\<close>

theorem refill_only_with_credential:
  "(\<forall>c m. Call_request_refill c m \<in> set (snd (main w path)) \<longrightarrow>
      (\<exists>config t1 t2.
         from_toml (files w) path = Inr config \<and>
         login w \<lparr>base_url = Config.base_url config\<rparr> (username config) (password config) (office config) = Inr c \<and>
         c \<noteq> [] \<and> m = med_id config \<and>
         snd (main w path) = t1 @ Call_request_refill c m # t2 \<and>
         Call_login (username config) (password config) (office config) \<in> set t1 \<and>
         (\<forall>c' m'. Call_request_refill c' m' \<notin> set t1 \<union> set t2)))
   \<and> (\<forall>config e.
         from_toml (files w) path = Inr config \<and>
         login w \<lparr>base_url = Config.base_url config\<rparr> (username config) (password config) (office config) = Inl e \<longrightarrow>
         (\<forall>c m. Call_request_refill c m \<notin> set (snd (main w path))))"
proof (intro conjI allI impI)
  fix c m
  assume in_t: "Call_request_refill c m \<in> set (snd (main w path))"
  show "\<exists>config t1 t2.
         from_toml (files w) path = Inr config \<and>
         login w \<lparr>base_url = Config.base_url config\<rparr> (username config) (password config) (office config) = Inr c \<and>
         c \<noteq> [] \<and> m = med_id config \<and>
         snd (main w path) = t1 @ Call_request_refill c m # t2 \<and>
         Call_login (username config) (password config) (office config) \<in> set t1 \<and>
         (\<forall>c' m'. Call_request_refill c' m' \<notin> set t1 \<union> set t2)"
  proof (cases "from_toml (files w) path")
    case (Inl e)
    from main_config_error[OF Inl] in_t show ?thesis by simp
  next
    case cfg: (Inr config)
    show ?thesis
    proof (cases "login w \<lparr>base_url = Config.base_url config\<rparr> (username config) (password config) (office config)")
      case (Inl e)
      from main_login_error[OF cfg Inl] in_t show ?thesis by simp
    next
      case lg: (Inr c0)
      have ne: "c0 \<noteq> []" using lg by (rule login_cookie_nonempty)
      let ?t1 = "[Log INFO (pill @ '' Starting refiller service...''),
             New_client (Config.base_url config),
             Log INFO (padlock @ '' Logging in to retrieve session cookie...''),
             Call_login (username config) (password config) (office config),
             Log INFO (cookie_sign @ '' Login successful, requesting medication refill...'')]"
      show ?thesis
      proof (cases "request_refill w \<lparr>base_url = Config.base_url config\<rparr> c0 (med_id config)")
        case (Inl e)
        note tr = main_refill_error[OF cfg lg Inl]
        from tr in_t have eq: "c = c0" "m = med_id config" by auto
        have "snd (main w path) = ?t1 @ Call_request_refill c m #
                [Log ERROR (''Login failed: '' @ exception_text w e), Call_close]"
          using tr eq by simp
        moreover have "Call_login (username config) (password config) (office config) \<in> set ?t1" by simp
        moreover have "\<forall>c' m'. Call_request_refill c' m' \<notin>
                         set ?t1 \<union> set [Log ERROR (''Login failed: '' @ exception_text w e), Call_close]"
          by simp
        ultimately show ?thesis using cfg lg ne eq by blast
      next
        case rf: (Inr b)
        note tr = main_refill_done[OF cfg lg rf]
        from tr in_t have eq: "c = c0" "m = med_id config" by (auto split: if_splits)
        let ?t2 = "[(if b then Log INFO (check_mark @ '' Medication refill request successful!'')
              else Log ERROR (cross_mark @ '' Medication refill request failed...'')), Call_close]"
        have "snd (main w path) = ?t1 @ Call_request_refill c m # ?t2"
          using tr eq by simp
        moreover have "Call_login (username config) (password config) (office config) \<in> set ?t1" by simp
        moreover have "\<forall>c' m'. Call_request_refill c' m' \<notin> set ?t1 \<union> set ?t2"
          by simp
        ultimately show ?thesis using cfg lg ne eq by blast
      qed
    qed
  qed
next
  fix config e c m
  assume "from_toml (files w) path = Inr config \<and>
         login w \<lparr>base_url = Config.base_url config\<rparr> (username config) (password config) (office config) = Inl e"
  then have "snd (main w path) = [Log INFO (pill @ '' Starting refiller service...''),
             New_client (Config.base_url config),
             Log INFO (padlock @ '' Logging in to retrieve session cookie...''),
             Call_login (username config) (password config) (office config),
             Log ERROR (''Login failed: '' @ exception_text w e),
             Call_close]"
    using main_login_error[of w path config e] by simp
  then show "Call_request_refill c m \<notin> set (snd (main w path))" by simp
qed

theorem refill_only_with_credential_witness:
  "Call_request_refill ''s=1'' (TStr ''aspirin'')
     \<in> set (snd (main (sample_world sample_doc (Inr (reply 200 ''OK'' (Some ''s=1''))) (Inr (reply 200 ''OK'' None)))
                     ''config.toml''))
   \<and> login (sample_world sample_doc (Inr (reply 200 ''OK'' (Some ''s=1''))) (Inr (reply 200 ''OK'' None)))
        sample_client (TStr ''u'') (TStr ''p'') (TStr ''o1'') = Inr ''s=1''
   \<and> login (sample_world sample_doc (Inl (OtherException ''Cannot connect to host'')) (Inr (reply 200 ''OK'' None)))
        sample_client (TStr ''u'') (TStr ''p'') (TStr ''o1'') = Inl (OtherException ''Cannot connect to host'')
   \<and> (\<forall>c m. Call_request_refill c m
        \<notin> set (snd (main (sample_world sample_doc (Inl (OtherException ''Cannot connect to host''))
                             (Inr (reply 200 ''OK'' None))) ''config.toml'')))"
proof -
  let ?ok = "sample_world sample_doc (Inr (reply 200 ''OK'' (Some ''s=1''))) (Inr (reply 200 ''OK'' None))"
  let ?down = "sample_world sample_doc (Inl (OtherException ''Cannot connect to host'')) (Inr (reply 200 ''OK'' None))"
  let ?cfg = "\<lparr>username = TStr ''u'', password = TStr ''p'', Config.base_url = TStr ''http://x'',
            med_id = TStr ''aspirin'', office = TStr ''o1''\<rparr>"
  have mem: "Call_request_refill ''s=1'' (TStr ''aspirin'') \<in> set (snd (main ?ok ''config.toml''))"
    by (simp add: sample_run_ok)
  from refill_only_with_credential[of ?ok "''config.toml''"] mem
  obtain config where "from_toml (files ?ok) ''config.toml'' = Inr config"
    and "login ?ok \<lparr>base_url = Config.base_url config\<rparr> (username config) (password config) (office config)
           = Inr ''s=1''"
    by blast
  then have lg: "login ?ok sample_client (TStr ''u'') (TStr ''p'') (TStr ''o1'') = Inr ''s=1''"
    by (auto simp: sample_from_toml sample_client_def)
  have dn: "login ?down \<lparr>base_url = Config.base_url ?cfg\<rparr> (username ?cfg) (password ?cfg) (office ?cfg)
              = Inl (OtherException ''Cannot connect to host'')"
    by (simp add: sample_client_eq sample_login_down)
  from refill_only_with_credential[of ?down "''config.toml''"] sample_from_toml[of "Inl (OtherException ''Cannot connect to host'')" "Inr (reply 200 ''OK'' None)"] dn
  have "\<forall>c m. Call_request_refill c m \<notin> set (snd (main ?down ''config.toml''))"
    by blast
  with mem lg dn show ?thesis by (simp add: sample_client_eq)
qed

text \<open>
  C4. Once the configuration is loaded, and so the client constructed, every run ends with
  \<open>main\<close> returning normally, no exception of \<open>login\<close> or \<open>request_refill\<close> leaving it, and
  with \<open>close\<close> called exactly once, as the last event: whether the refill succeeded, returned
  \<open>False\<close>, or one of the two calls raised.
\<close>

theorem close_exactly_once:
  assumes "from_toml (files w) path = Inr config"
  shows "fst (main w path) = Inr ()
       \<and> count_list (snd (main w path)) Call_close = 1
       \<and> last (snd (main w path)) = Call_close"
proof (cases "login w \<lparr>base_url = Config.base_url config\<rparr> (username config) (password config) (office config)")
  case (Inl e)
  from main_login_error[OF assms Inl] show ?thesis by simp
next
  case (Inr c)
  show ?thesis
  proof (cases "request_refill w \<lparr>base_url = Config.base_url config\<rparr> c (med_id config)")
    case (Inl e)
    from main_refill_error[OF assms Inr Inl] show ?thesis by simp
  next
    case Inr2: (Inr b)
    from main_refill_done[OF assms Inr Inr2] show ?thesis by simp
  qed
qed

theorem close_exactly_once_witness:
  "fst (main (sample_world sample_doc (Inl (OtherException ''Cannot connect to host'')) (Inr (reply 200 ''OK'' None)))
             ''config.toml'') = Inr ()
   \<and> count_list (snd (main (sample_world sample_doc (Inl (OtherException ''Cannot connect to host''))
                               (Inr (reply 200 ''OK'' None))) ''config.toml'')) Call_close = 1
   \<and> fst (main (sample_world sample_doc (Inr (reply 200 ''OK'' (Some ''s=1''))) (Inr (reply 201 ''Created'' None)))
             ''config.toml'') = Inr ()
   \<and> count_list (snd (main (sample_world sample_doc (Inr (reply 200 ''OK'' (Some ''s=1'')))
                               (Inr (reply 201 ''Created'' None))) ''config.toml'')) Call_close = 1"
  using close_exactly_once[OF sample_from_toml, of "Inl (OtherException ''Cannot connect to host'')" "Inr (reply 200 ''OK'' None)"]
        close_exactly_once[OF sample_from_toml, of "Inr (reply 200 ''OK'' (Some ''s=1''))" "Inr (reply 201 ''Created'' None)"]
  by simp

text \<open>
  C8. If loading the configuration raises (the file is absent, or fields are missing or
  empty), that exception leaves \<open>main\<close>, and the run consists of the start-up log record
  alone: no client is constructed, neither \<open>login\<close> nor \<open>request_refill\<close> nor \<open>close\<close> is
  called.
\<close>

theorem config_failure_aborts:
  assumes "from_toml (files w) path = Inl e"
  shows "main w path = (Inl e, [Log INFO (pill @ '' Starting refiller service...'')])
       \<and> (\<forall>b. New_client b \<notin> set (snd (main w path)))
       \<and> (\<forall>u p off. Call_login u p off \<notin> set (snd (main w path)))
       \<and> (\<forall>c m. Call_request_refill c m \<notin> set (snd (main w path)))
       \<and> Call_close \<notin> set (snd (main w path))"
  using main_config_error[OF assms] by simp

theorem config_failure_aborts_witness:
  "main (sample_world sample_doc (Inr (reply 200 ''OK'' (Some ''s=1''))) (Inr (reply 200 ''OK'' None)))
        ''absent.toml''
     = (Inl (FileNotFoundError ''Config file not found at absent.toml''),
        [Log INFO (pill @ '' Starting refiller service...'')])
   \<and> main (sample_world (sample_doc(''office'' := None)) (Inr (reply 200 ''OK'' (Some ''s=1'')))
             (Inr (reply 200 ''OK'' None))) ''config.toml''
     = (Inl (ValueError ''Missing or empty required fields in config file: office''),
        [Log INFO (pill @ '' Starting refiller service...'')])"
proof -
  let ?w1 = "sample_world sample_doc (Inr (reply 200 ''OK'' (Some ''s=1''))) (Inr (reply 200 ''OK'' None))"
  let ?w2 = "sample_world (sample_doc(''office'' := None)) (Inr (reply 200 ''OK'' (Some ''s=1'')))
             (Inr (reply 200 ''OK'' None))"
  have e1: "from_toml (files ?w1) ''absent.toml''
              = Inl (FileNotFoundError ''Config file not found at absent.toml'')"
    by (simp add: from_toml_def sample_world_def sample_files_def)
  have "missing_or_empty_fields (sample_doc(''office'' := None)) = [''office'']"
    by (simp add: required_fields_def missing_or_empty_fields_def missing_or_empty_def sample_doc_def)
  then have e2: "from_toml (files ?w2) ''config.toml''
              = Inl (ValueError ''Missing or empty required fields in config file: office'')"
    by (simp add: from_toml_def sample_world_def sample_files_def)
  from config_failure_aborts[OF e1] config_failure_aborts[OF e2] show ?thesis by simp
qed

text \<open>
  C9. For every exception raised by \<open>login\<close>, or by \<open>request_refill\<close> after a successful
  login, the run ends with the error record \<open>Login failed: \<close> followed by the text of the
  exception, then the call of \<open>close\<close>, and \<open>main\<close> returns normally: an exception of the
  refill stage is reported in the words of a login failure.
\<close>

theorem handler_logs_login_failed:
  assumes "from_toml (files w) path = Inr config"
    and "login w \<lparr>base_url = Config.base_url config\<rparr> (username config) (password config) (office config) = Inl e
         \<or> (\<exists>c. login w \<lparr>base_url = Config.base_url config\<rparr> (username config) (password config) (office config) = Inr c
                \<and> request_refill w \<lparr>base_url = Config.base_url config\<rparr> c (med_id config) = Inl e)"
  shows "fst (main w path) = Inr ()
       \<and> (\<exists>t. snd (main w path) = t @ [Log ERROR (''Login failed: '' @ exception_text w e), Call_close])"
  using assms(2)
proof (elim disjE exE conjE)
  assume "login w \<lparr>base_url = Config.base_url config\<rparr> (username config) (password config) (office config) = Inl e"
  from main_login_error[OF assms(1) this] show ?thesis by simp
next
  fix c
  assume "login w \<lparr>base_url = Config.base_url config\<rparr> (username config) (password config) (office config) = Inr c"
    and "request_refill w \<lparr>base_url = Config.base_url config\<rparr> c (med_id config) = Inl e"
  from main_refill_error[OF assms(1) this] show ?thesis by simp
qed

theorem handler_logs_login_failed_witness:
  "fst (main (sample_world sample_doc (Inr (reply 200 ''OK'' (Some ''s=1'')))
                (Inr (reply 500 ''Internal Server Error'' None))) ''config.toml'') = Inr ()
   \<and> (\<exists>t. snd (main (sample_world sample_doc (Inr (reply 200 ''OK'' (Some ''s=1'')))
                (Inr (reply 500 ''Internal Server Error'' None))) ''config.toml'')
          = t @ [Log ERROR ''Login failed: Internal Server Error'', Call_close])"
proof -
  let ?w = "sample_world sample_doc (Inr (reply 200 ''OK'' (Some ''s=1'')))
                (Inr (reply 500 ''Internal Server Error'' None))"
  let ?cfg = "\<lparr>username = TStr ''u'', password = TStr ''p'', Config.base_url = TStr ''http://x'',
            med_id = TStr ''aspirin'', office = TStr ''o1''\<rparr>"
  have cfg: "from_toml (files ?w) ''config.toml'' = Inr ?cfg" by (rule sample_from_toml)
  have "login ?w \<lparr>base_url = Config.base_url ?cfg\<rparr> (username ?cfg) (password ?cfg) (office ?cfg) = Inr ''s=1''
        \<and> request_refill ?w \<lparr>base_url = Config.base_url ?cfg\<rparr> ''s=1'' (med_id ?cfg)
            = Inl (ClientResponseError 500 ''Internal Server Error'')"
    by (simp add: sample_client_eq sample_login_ok sample_refill_500)
  then have stage: "login ?w \<lparr>base_url = Config.base_url ?cfg\<rparr> (username ?cfg) (password ?cfg) (office ?cfg)
            = Inl (ClientResponseError 500 ''Internal Server Error'')
        \<or> (\<exists>c. login ?w \<lparr>base_url = Config.base_url ?cfg\<rparr> (username ?cfg) (password ?cfg) (office ?cfg) = Inr c
              \<and> request_refill ?w \<lparr>base_url = Config.base_url ?cfg\<rparr> c (med_id ?cfg)
                  = Inl (ClientResponseError 500 ''Internal Server Error''))"
    by blast
  have rendered: "exception_text ?w (ClientResponseError 500 ''Internal Server Error'') = ''Internal Server Error''"
    by (simp add: exception_text_def sample_world_def)
  from handler_logs_login_failed[OF cfg stage] rendered show ?thesis by simp
qed

end
